theory Spec2Isabelle
  imports Complex_Main "HOL-Library.Sublist"
begin

section \<open>Python values and exceptions\<close>

text \<open>
  The exceptions the modelled code can raise. A function that can raise returns a value
  of \<open>error + 'a\<close> (\<open>Inl\<close> carries the exception); a method that mutates \<open>self\<close> returns
  the outcome together with the object as it is after the call, so that what an aborted
  call has already written stays visible.
\<close>

datatype error = TypeError | ValueError | AttributeError | NameError string

type_synonym 'a outcome = "error + 'a"

text \<open>
  Numeric entries are real numbers: the code below only stores, copies and compares them.
  A numpy array is either 0-dimensional (it has no \<open>len\<close>) or a sequence of entries along
  its first axis. A matrix is the list of its rows.
\<close>

datatype ndarray = Array0 real | Array1 "real list"

type_synonym matrix = "real list list"

text \<open>
  The objects that pass \<open>isinstance(k_d, (np.ndarray, list, tuple))\<close>, and the Python
  values a caller may hand to a setter.
\<close>

datatype arraylike = PyList "real list" | PyTuple "real list" | PyArray ndarray

datatype pyval = PyNone | PyFloat real | PyStr string | ArrayLike arraylike

text \<open>\<open>np.zeros(n)\<close>, \<open>np.asarray(x)\<close> and \<open>len(a)\<close> of an array.\<close>

definition np_zeros :: "nat \<Rightarrow> ndarray" where
  "np_zeros n = Array1 (replicate n 0)"

fun np_asarray :: "arraylike \<Rightarrow> ndarray" where
  "np_asarray (PyList xs) = Array1 xs"
| "np_asarray (PyTuple xs) = Array1 xs"
| "np_asarray (PyArray a) = a"

fun np_len :: "ndarray \<Rightarrow> nat outcome" where
  "np_len (Array0 x) = Inl TypeError"
| "np_len (Array1 xs) = Inr (length xs)"

section \<open>priorities/tasks/velocity/angular\_momentum.py\<close>

text \<open>
  Modelled from the spec: the class \<open>ModelInterface\<close>, which the task only imports.
  It is a read-only query surface; \<open>get_centroidal_momentum_matrix()\<close> returns the
  centroidal momentum matrix (6 rows, one column per degree of freedom) of the robot's
  current configuration. The record holds what the queries return at the current tick.
\<close>

record model_interface =
  cmm :: matrix

definition get_centroidal_momentum_matrix :: "model_interface \<Rightarrow> matrix" where
  "get_centroidal_momentum_matrix m = cmm m"

text \<open>
  The attributes of an \<open>AngularMomentumTask\<close> that its own code reads or writes:
  \<open>_A\<close>, \<open>_b\<close> and \<open>_des_k\<close>. \<open>None\<close> stands for an attribute that has not been
  assigned yet (\<open>_des_k\<close> does not exist before the setter has run once).
\<close>

record angular_momentum_task =
  task_A :: "matrix option"
  task_b :: "ndarray option"
  des_k :: "ndarray option"

text \<open>The property \<open>desired_angular_momentum\<close> (and its alias \<open>x_desired\<close>): getter.\<close>

definition desired_angular_momentum :: "angular_momentum_task \<Rightarrow> ndarray outcome" where
  "desired_angular_momentum t =
     (case des_k t of None \<Rightarrow> Inl AttributeError | Some k \<Rightarrow> Inr k)"

text \<open>
  The setter: \<open>None\<close> becomes \<open>np.zeros(3)\<close>; anything that is not an array, a list or a
  tuple raises \<open>TypeError\<close>; the value is converted with \<open>np.asarray\<close>; a length other
  than 3 raises \<open>ValueError\<close> (\<open>len\<close> of a 0-dimensional array raises \<open>TypeError\<close>);
  only then is \<open>_des_k\<close> assigned.
\<close>

definition desired_angular_momentum_setter :: "angular_momentum_task \<Rightarrow> pyval \<Rightarrow> unit outcome \<times> angular_momentum_task" where
  "desired_angular_momentum_setter t k_d =
     (let k_d1 = (if k_d = PyNone then ArrayLike (PyArray (np_zeros 3)) else k_d) in
      case k_d1 of
        ArrayLike al \<Rightarrow>
          (let k_d2 = np_asarray al in
           case np_len k_d2 of
             Inl e \<Rightarrow> (Inl e, t)
           | Inr n \<Rightarrow>
               if n \<noteq> 3 then (Inl ValueError, t)
               else (Inr (), t\<lparr>des_k := Some k_d2\<rparr>))
      | _ \<Rightarrow> (Inl TypeError, t))"

definition x_desired :: "angular_momentum_task \<Rightarrow> ndarray outcome" where
  "x_desired t = desired_angular_momentum t"

definition x_desired_setter :: "angular_momentum_task \<Rightarrow> pyval \<Rightarrow> unit outcome \<times> angular_momentum_task" where
  "x_desired_setter t k_d = desired_angular_momentum_setter t k_d"

definition set_desired_references :: "angular_momentum_task \<Rightarrow> pyval \<Rightarrow> unit outcome \<times> angular_momentum_task" where
  "set_desired_references t x_des = x_desired_setter t x_des"

definition get_desired_references :: "angular_momentum_task \<Rightarrow> ndarray outcome" where
  "get_desired_references t = x_desired t"

text \<open>
  \<open>_update\<close>: the first statement assigns \<open>_A\<close> the first three rows of the matrix the
  model returns now; the second reads \<open>_des_k\<close> (an \<open>AttributeError\<close> if it was never
  set) and assigns it to \<open>_b\<close>.
\<close>

definition AngularMomentumTask_update :: "model_interface \<Rightarrow> angular_momentum_task \<Rightarrow> unit outcome \<times> angular_momentum_task" where
  "AngularMomentumTask_update m t =
     (let t1 = t\<lparr>task_A := Some (take 3 (get_centroidal_momentum_matrix m))\<rparr> in
      case des_k t1 of
        None \<Rightarrow> (Inl AttributeError, t1)
      | Some k \<Rightarrow> (Inr (), t1\<lparr>task_b := Some k\<rparr>))"

text \<open>
  Modelled from the spec: the method \<open>update\<close> of the base class \<open>Task\<close>, which the
  task only imports. The spec gives its contract: it recomputes \<open>(A, b)\<close> from
  the current model state, returns nothing and only mutates the task; the subclass hook
  \<open>_update\<close> does the recomputation.
\<close>

definition update :: "model_interface \<Rightarrow> angular_momentum_task \<Rightarrow> unit outcome \<times> angular_momentum_task" where
  "update m t = AngularMomentumTask_update m t"

text \<open>
  \<open>AngularMomentumTask.__init__\<close>. The constructor of the base class is imported
  code: its result (an exception, or the object it has initialised) is the parameter
  \<open>super_init\<close>. Then the desired reference is set through the property, and the task is
  updated once. An exception at any step leaves no object.
\<close>

definition AngularMomentumTask_init ::
  "angular_momentum_task outcome \<Rightarrow> model_interface \<Rightarrow> pyval \<Rightarrow> angular_momentum_task outcome" where
  "AngularMomentumTask_init super_init m desired =
     (case super_init of
        Inl e \<Rightarrow> Inl e
      | Inr t0 \<Rightarrow>
          (case desired_angular_momentum_setter t0 desired of
             (Inl e, t1) \<Rightarrow> Inl e
           | (Inr u, t1) \<Rightarrow>
               (case update m t1 of
                  (Inl e, t2) \<Rightarrow> Inl e
                | (Inr u', t2) \<Rightarrow> Inr t2)))"

section \<open>metrics/rl\_metrics.py\<close>


datatype ('t, 'l) pyobj = RLTaskObj 't | BatchLossObj 'l | OtherObj




subsection \<open>AverageReturnMetric\<close>









subsection \<open>LossMetric\<close>

text \<open>\<open>str.lower()\<close> on a byte string: the letters \<open>A\<close> to \<open>Z\<close> move to \<open>a\<close> to \<open>z\<close>.\<close>

definition lower_char :: "char \<Rightarrow> char" where
  "lower_char c =
     (if (65::nat) \<le> of_char c \<and> of_char c \<le> (90::nat)
      then char_of (of_char c + (32::nat)) else c)"

definition lower :: "string \<Rightarrow> string" where
  "lower s = map lower_char s"

text \<open>The value the \<open>wrt\<close> setter stores in \<open>_wrt\<close>; the argument is a string or \<open>None\<close>.\<close>

definition wrt_setter :: "string option \<Rightarrow> string" where
  "wrt_setter wrt =
     (case wrt of
        None \<Rightarrow> ''iteration''
      | Some s \<Rightarrow>
          (let s1 = lower s in
           if take 7 s1 = ''episode'' then ''episode''
           else if take 5 s1 = ''epoch'' then ''epoch''
           else ''iteration''))"

record 'l loss_metric =
  loss :: 'l
  batch_losses :: "real list"
  epoch_losses :: "real list list"
  losses :: "real list list list"
  wrt :: string

definition loss_setter :: "('t, 'l) pyobj \<Rightarrow> 'l outcome" where
  "loss_setter obj = (case obj of BatchLossObj l \<Rightarrow> Inr l | _ \<Rightarrow> Inl TypeError)"

definition LossMetric_init :: "('t, 'l) pyobj \<Rightarrow> string option \<Rightarrow> 'l loss_metric outcome" where
  "LossMetric_init obj w =
     (case loss_setter obj of
        Inl e \<Rightarrow> Inl e
      | Inr l \<Rightarrow>
          Inr \<lparr>loss = l, batch_losses = [], epoch_losses = [], losses = [],
               wrt = wrt_setter w\<rparr>)"

section \<open>utils/decorator.py\<close>

text \<open>
  The names the module binds at its top level, in the order of the file: the three
  imports (\<open>import sys\<close>, \<open>import numpy\<close>, \<open>import torch\<close>), the metadata strings and the
  two decorators. The builtins are those the module's code refers to.
\<close>

definition module_globals :: "string list" where
  "module_globals =
     [''sys'', ''numpy'', ''torch'', ''__author__'', ''__copyright__'', ''__credits__'',
      ''__license__'', ''__version__'', ''__maintainer__'', ''__email__'', ''__status__'',
      ''convert_numpy'', ''keyboard_interrupt'']"

definition builtins :: "string list" where
  "builtins = [''isinstance'', ''KeyboardInterrupt'']"

text \<open>
  Reading a name that is not local to the function: the module's globals, then the
  builtins, else \<open>NameError\<close>.
\<close>

definition load_global :: "string list \<Rightarrow> string \<Rightarrow> unit outcome" where
  "load_global globals name =
     (if name \<in> set globals then Inr ()
      else if name \<in> set builtins then Inr ()
      else Inl (NameError name))"

text \<open>The values the wrapper handles: a numpy array, a torch tensor, anything else.\<close>

datatype tval = NumpyArray "real list" | TorchTensor "real list" | OtherValue

text \<open>
  \<open>torch.from_numpy(x).float()\<close> accepts a numpy array only; \<open>x.numpy()\<close> exists on a
  tensor (a numpy array has no such method).
\<close>

fun torch_from_numpy_float :: "tval \<Rightarrow> tval outcome" where
  "torch_from_numpy_float (NumpyArray xs) = Inr (TorchTensor xs)"
| "torch_from_numpy_float v = Inl TypeError"

fun tensor_numpy :: "tval \<Rightarrow> tval outcome" where
  "tensor_numpy (TorchTensor xs) = Inr (NumpyArray xs)"
| "tensor_numpy v = Inl AttributeError"

fun is_ndarray :: "tval \<Rightarrow> bool" where
  "is_ndarray (NumpyArray xs) = True"
| "is_ndarray v = False"

text \<open>
  The function \<open>wrapper\<close> that \<open>convert_numpy(f)\<close> returns, in a module whose globals are
  \<open>globals\<close>. The test \<open>isinstance(x, np.ndarray)\<close> reads the global \<open>np\<close>; the conversion
  reads the global \<open>torch\<close>, and it is applied when \<open>x\<close> is not an array, as the source
  has it.
\<close>

definition wrapper ::
  "string list \<Rightarrow> ('s \<Rightarrow> tval \<Rightarrow> tval outcome) \<Rightarrow> 's \<Rightarrow> tval \<Rightarrow> bool \<Rightarrow> tval outcome" where
  "wrapper globals f self x to_numpy =
     (case load_global globals ''isinstance'' of
        Inl e \<Rightarrow> Inl e
      | Inr u0 \<Rightarrow>
     (case load_global globals ''np'' of
        Inl e \<Rightarrow> Inl e
      | Inr u1 \<Rightarrow>
     (case (if \<not> is_ndarray x
            then (case load_global globals ''torch'' of
                    Inl e \<Rightarrow> Inl e
                  | Inr u2 \<Rightarrow> torch_from_numpy_float x)
            else Inr x) of
        Inl e \<Rightarrow> Inl e
      | Inr x1 \<Rightarrow>
     (case f self x1 of
        Inl e \<Rightarrow> Inl e
      | Inr x2 \<Rightarrow> if to_numpy then tensor_numpy x2 else Inr x2))))"

definition convert_numpy ::
  "('s \<Rightarrow> tval \<Rightarrow> tval outcome) \<Rightarrow> 's \<Rightarrow> tval \<Rightarrow> bool \<Rightarrow> tval outcome" where
  "convert_numpy f = wrapper module_globals f"

section \<open>Properties of the angular momentum task\<close>

lemmas reference_defs =
  set_desired_references_def get_desired_references_def x_desired_def x_desired_setter_def
  desired_angular_momentum_def desired_angular_momentum_setter_def

text \<open>
  Claim C1. Every call of \<open>_update\<close> (the hook through which \<open>update()\<close> works) on a task
  that holds a desired reference \<open>k\<close> succeeds, sets \<open>A\<close> to the first three rows of the
  centroidal momentum matrix the model returns on that call and \<open>b\<close> to \<open>k\<close>; the result
  does not depend on the value of \<open>A\<close> stored before the call, so nothing is cached.
\<close>

theorem update_refetches_cmm:
  assumes "des_k t = Some k"
  shows "AngularMomentumTask_update m t =
           (Inr (), t\<lparr>task_A := Some (take 3 (get_centroidal_momentum_matrix m)),
                       task_b := Some k\<rparr>)
         \<and> AngularMomentumTask_update m (t\<lparr>task_A := A0\<rparr>) = AngularMomentumTask_update m t"
  using assms by (simp add: AngularMomentumTask_update_def)

theorem update_refetches_cmm_witness:
  "AngularMomentumTask_update \<lparr>cmm = [[1, 0], [0, 1], [2, 3], [4, 5], [6, 7], [8, 9]]\<rparr>
     \<lparr>task_A = Some [[9]], task_b = None, des_k = Some (Array1 [1, 2, 3])\<rparr>
   = (Inr (), \<lparr>task_A = Some [[1, 0], [0, 1], [2, 3]], task_b = Some (Array1 [1, 2, 3]),
                des_k = Some (Array1 [1, 2, 3])\<rparr>)"
  using update_refetches_cmm
    [of "\<lparr>task_A = Some [[9]], task_b = None, des_k = Some (Array1 [1, 2, 3])\<rparr>"
      "Array1 [1, 2, 3]" "\<lparr>cmm = [[1, 0], [0, 1], [2, 3], [4, 5], [6, 7], [8, 9]]\<rparr>" None]
  by (simp add: get_centroidal_momentum_matrix_def)



text \<open>
  Claim C3. Setting the desired reference to \<open>None\<close> raises nothing and stores the zero
  3-vector, and an update after it makes \<open>b\<close> the zero 3-vector; a task constructed
  without a desired reference (the base class constructor having returned the object
  \<open>t0\<close>) is created without an error, with the zero 3-vector as stored reference and as
  \<open>b\<close>.
\<close>

theorem default_reference_is_zero:
  "set_desired_references t PyNone = (Inr (), t\<lparr>des_k := Some (Array1 [0, 0, 0])\<rparr>)
   \<and> fst (update m (snd (set_desired_references t PyNone))) = Inr ()
   \<and> task_b (snd (update m (snd (set_desired_references t PyNone)))) = Some (Array1 [0, 0, 0])
   \<and> (\<exists>t'. AngularMomentumTask_init (Inr t0) m PyNone = Inr t'
           \<and> des_k t' = Some (Array1 [0, 0, 0]) \<and> task_b t' = Some (Array1 [0, 0, 0]))"
  by (simp add: reference_defs AngularMomentumTask_init_def update_def
      AngularMomentumTask_update_def np_zeros_def numeral_3_eq_3)

text \<open>
  Claim C4. On a task that holds a desired reference \<open>k\<close>, \<open>set_desired_references\<close> with a
  list, a tuple or a one-dimensional array whose length is not 3 raises \<open>ValueError\<close>, the
  task is exactly as it was before the call, and \<open>get_desired_references()\<close> still
  returns \<open>k\<close>.
\<close>

theorem wrong_length_raises_and_keeps_reference:
  assumes "des_k t = Some k" and "length xs \<noteq> 3"
    and "v \<in> {PyList xs, PyTuple xs, PyArray (Array1 xs)}"
  shows "set_desired_references t (ArrayLike v) = (Inl ValueError, t)
         \<and> get_desired_references (snd (set_desired_references t (ArrayLike v))) = Inr k"
  using assms by (auto simp: reference_defs)

theorem wrong_length_raises_and_keeps_reference_witness:
  "set_desired_references \<lparr>task_A = None, task_b = None, des_k = Some (Array1 [1, 2, 3])\<rparr>
     (ArrayLike (PyList [7, 8]))
   = (Inl ValueError, \<lparr>task_A = None, task_b = None, des_k = Some (Array1 [1, 2, 3])\<rparr>)"
  using wrong_length_raises_and_keeps_reference
    [of "\<lparr>task_A = None, task_b = None, des_k = Some (Array1 [1, 2, 3])\<rparr>"
      "Array1 [1, 2, 3]" "[7, 8]" "PyList [7, 8]"]
  by simp

text \<open>
  Claim C5. \<open>_update\<close> (the hook through which \<open>update()\<close> works) is idempotent for a
  fixed model state: from every task state, a second call returns the same outcome and
  leaves the same task, hence the same pair \<open>(A, b)\<close>, as the first call alone.
\<close>

theorem update_idempotent:
  "AngularMomentumTask_update m (snd (AngularMomentumTask_update m t))
   = AngularMomentumTask_update m t"
  by (simp add: AngularMomentumTask_update_def Let_def split: option.splits)

section \<open>Properties of the metrics\<close>








lemma take_eq_iff_prefix:
  "length p = n \<Longrightarrow> take n s = p \<longleftrightarrow> prefix p s"
  by (metis append_take_drop_id prefix_def append_eq_conv_conj)

text \<open>
  Claim C9. The \<open>wrt\<close> setter stores \<open>episode\<close> for every string whose lower-cased form
  starts with \<open>episode\<close>, \<open>epoch\<close> for every string whose lower-cased form starts with
  \<open>epoch\<close>, and \<open>iteration\<close> for every other string and for \<open>None\<close>; so \<open>EPOCHS\<close> is
  stored as \<open>epoch\<close> and \<open>bogus\<close> as \<open>iteration\<close>.
\<close>

theorem wrt_setter_normalizes:
  "(prefix ''episode'' (lower s) \<longrightarrow> wrt_setter (Some s) = ''episode'')
   \<and> (prefix ''epoch'' (lower s) \<longrightarrow> wrt_setter (Some s) = ''epoch'')
   \<and> (\<not> prefix ''episode'' (lower s) \<and> \<not> prefix ''epoch'' (lower s)
        \<longrightarrow> wrt_setter (Some s) = ''iteration'')
   \<and> wrt_setter None = ''iteration''
   \<and> wrt_setter (Some ''EPOCHS'') = ''epoch''
   \<and> wrt_setter (Some ''bogus'') = ''iteration''"
proof -
  have e7: "take 7 t = ''episode'' \<longleftrightarrow> prefix ''episode'' t" for t
    by (rule take_eq_iff_prefix) simp
  have e5: "take 5 t = ''epoch'' \<longleftrightarrow> prefix ''epoch'' t" for t
    by (rule take_eq_iff_prefix) simp
  have ne: "prefix ''episode'' t \<Longrightarrow> \<not> prefix ''epoch'' t" for t
    by (auto simp: prefix_def)
  have general: "wrt_setter (Some s) =
      (if prefix ''episode'' (lower s) then ''episode''
       else if prefix ''epoch'' (lower s) then ''epoch'' else ''iteration'')"
    by (simp add: wrt_setter_def Let_def e7 e5)
  have c1: "wrt_setter (Some ''EPOCHS'') = ''epoch''"
    by code_simp
  have c2: "wrt_setter (Some ''bogus'') = ''iteration''"
    by code_simp
  have c3: "wrt_setter None = ''iteration''"
    by (simp add: wrt_setter_def)
  show ?thesis
    using ne [of "lower s"] by (simp add: general c1 c2 c3)
qed

theorem wrt_setter_normalizes_witness:
  "prefix ''episode'' (lower ''Episodes'') \<and> wrt_setter (Some ''Episodes'') = ''episode''
   \<and> prefix ''epoch'' (lower ''Epoch_42'') \<and> wrt_setter (Some ''Epoch_42'') = ''epoch''
   \<and> \<not> prefix ''episode'' (lower ''batch'') \<and> \<not> prefix ''epoch'' (lower ''batch'')
   \<and> wrt_setter (Some ''batch'') = ''iteration''"
proof -
  have p1: "prefix ''episode'' (lower ''Episodes'')"
    by code_simp
  have p2: "prefix ''epoch'' (lower ''Epoch_42'')"
    by code_simp
  have p3: "\<not> prefix ''episode'' (lower ''batch'') \<and> \<not> prefix ''epoch'' (lower ''batch'')"
    by code_simp
  show ?thesis
    using p1 p2 p3 wrt_setter_normalizes [of "''Episodes''"]
      wrt_setter_normalizes [of "''Epoch_42''"] wrt_setter_normalizes [of "''batch''"]
    by blast
qed

section \<open>Properties of the decorators\<close>

text \<open>
  Claim C10. Every call of the wrapper that \<open>convert_numpy\<close> returns raises
  \<open>NameError\<close> for the name \<open>np\<close>, whatever the decorated function, the object, the input
  and the flag are: the module binds \<open>numpy\<close> and not \<open>np\<close>, and the wrapper reads
  \<open>np\<close> before it converts anything. So a decorated function never returns a value.
\<close>

theorem convert_numpy_raises_NameError:
  "convert_numpy f self x to_numpy = Inl (NameError ''np'')
   \<and> ''np'' \<notin> set module_globals \<and> ''numpy'' \<in> set module_globals
   \<and> (\<nexists>y. convert_numpy f self x to_numpy = Inr y)"
  by (simp add: convert_numpy_def wrapper_def load_global_def module_globals_def builtins_def)

end
